theory Spec2Isabelle
  imports Complex_Main "HOL-Library.Multiset" "HOL-Library.Log_Nat"
begin

section \<open>Data model\<close>

text \<open>
  The reading tracker of \<^verbatim>\<open>src/app.js\<close> keeps its whole state in a handful of global
  variables and mirrors them into the browser's \<^verbatim>\<open>localStorage\<close>. The embedding below
  follows the first (richest) variant of the file. The second variant in the same file
  has the same handlers and the same streak computation, without covers, editing,
  export and import; the oldest variant (\<^verbatim>\<open>src/unnamed/part_000\<close>) has no status, no
  activity feed and no achievements, and its completion toggle only flips the flag.

  A log's \<^verbatim>\<open>date\<close> is the string of an HTML date input. The code only ever looks at the
  calendar day that \<^verbatim>\<open>new Date(date)\<close> followed by \<^verbatim>\<open>setHours(0, 0, 0, 0)\<close> yields, and
  compares such days for equality and by their difference in days. A date is therefore
  modelled by the number of that day (days since some fixed day): both sources of date
  strings, the date input and \<^verbatim>\<open>toISOString\<close>, write the form \<^verbatim>\<open>YYYY-MM-DD\<close>, so
  distinct strings denote distinct days. Strings that denote no day are outside the
  model. Amounts and totals are the integers \<^verbatim>\<open>parseInt\<close> returns.
\<close>

type_synonym day = int

text \<open>
  The text the user types (a book's name, author and cover address) is a JavaScript
  string, a sequence of UTF-16 code units, which \<^verbatim>\<open>trim\<close> inspects one by one: it is
  modelled as the list of its code units. \<open>utf16\<close> writes an ASCII literal that way.
  The other strings of the program (ids, type, category, status, time stamps) are only
  compared with each other and tested for emptiness; they stay HOL strings.
\<close>

type_synonym code_unit = int

type_synonym jstext = "code_unit list"

definition utf16 :: "string \<Rightarrow> jstext" where
  "utf16 str = map of_char str"

record log_entry =
  date :: day
  amount :: int

text \<open>
  \<^verbatim>\<open>class Book\<close>: the constructor's fields. \<^verbatim>\<open>id\<close> and \<^verbatim>\<open>type\<close> are renamed
  \<open>book_id\<close> and \<open>book_type\<close>; the type and the status stay strings, as in the code,
  which compares the type with \<^verbatim>\<open>'paper'\<close> and treats every other value as audio.
\<close>

record book =
  book_id :: string
  name :: jstext
  author :: jstext
  book_type :: string
  total :: int
  category :: string
  coverUrl :: jstext
  logs :: "log_entry list"
  status :: string
  completed :: bool

definition Book :: "string \<Rightarrow> jstext \<Rightarrow> jstext \<Rightarrow> string \<Rightarrow> int \<Rightarrow> string \<Rightarrow> jstext \<Rightarrow> book" where
  "Book i n a t tot cat cover =
     \<lparr>book_id = i, name = n, author = a, book_type = t, total = tot, category = cat,
      coverUrl = cover, logs = [], status = ''planned'', completed = False\<rparr>"

section \<open>Progress engine\<close>

text \<open>\<^verbatim>\<open>this.logs.reduce((sum, log) => sum + log.amount, 0)\<close>: a left fold.\<close>

definition getTotalProgress :: "book \<Rightarrow> int" where
  "getTotalProgress b = foldl (\<lambda>sum log. sum + amount log) 0 (logs b)"

text \<open>
  JavaScript numbers are IEEE 754 double-precision values. Every double is a rational
  number, and an arithmetic operation returns the exact result rounded to the nearest
  double, a tie going to the even significand. \<open>toDouble\<close> is that rounding for a
  significand of 53 bits: \<open>exponent x\<close> is the \<open>e\<close> with \<open>2 powi e \<le> x < 2 powi (e + 1)\<close>,
  found from the bit lengths of numerator and denominator, and the value is rounded to
  a multiple of \<open>2 powi (e - 52)\<close>. Overflow to infinity and the subnormal range are not
  modelled; neither is reached from integers below \<open>2 ^ 53\<close>, which are doubles
  themselves.
\<close>

definition exponent :: "rat \<Rightarrow> int" where
  "exponent x =
     (let a = fst (quotient_of x); b = snd (quotient_of x); e = bitlen a - bitlen b
      in if 2 powi e \<le> x then e else e - 1)"

definition roundEven :: "rat \<Rightarrow> int" where
  "roundEven r =
     (let f = \<lfloor>r\<rfloor>; d = r - of_int f
      in if d < 1 / 2 then f else if 1 / 2 < d then f + 1 else if even f then f else f + 1)"

definition toDouble :: "rat \<Rightarrow> rat" where
  "toDouble x =
     (if x = 0 then 0
      else let u = 2 powi (exponent \<bar>x\<bar> - 52)
           in sgn x * of_int (roundEven (\<bar>x\<bar> / u)) * u)"



definition getRemainingAmount :: "book \<Rightarrow> int" where
  "getRemainingAmount b = max (total b - getTotalProgress b) 0"

definition updateStatus :: "book \<Rightarrow> book" where
  "updateStatus b =
     (let progress = getTotalProgress b
      in if progress = 0 then b\<lparr>status := ''planned''\<rparr>
         else if progress \<ge> total b then b\<lparr>status := ''completed'', completed := True\<rparr>
         else b\<lparr>status := ''in-progress''\<rparr>)"

section \<open>Application state\<close>

text \<open>
  An activity's type and message are Bulgarian text literals in the code. They are
  modelled by constructors, one per literal, named after the English meaning:
  \<open>Adding\<close> (add book), \<open>Progress\<close> (log), \<open>Completing\<close>, \<open>Deleting\<close>,
  \<open>Achievement\<close>, \<open>Editing\<close>, \<open>Export\<close>, \<open>Import\<close>. A message constructor carries what
  the template literal interpolates; \<open>Unlocked\<close> carries the achievement's id where the
  code interpolates its display name.
\<close>

datatype activity_type =
  Adding | Progress | Completing | Deleting | Achievement | Editing | Export | Import

datatype unit_name = Pages | Minutes

datatype message =
  BookAdded jstext
  | ProgressLogged int unit_name jstext
  | BookCompleted jstext
  | BookDeleted jstext
  | Unlocked string
  | BookEdited jstext
  | DataExported
  | DataImported

record activity =
  activity_type :: activity_type
  message :: message
  bookName :: jstext
  activity_date :: string

record achievement =
  ach_id :: string
  unlocked :: bool

text \<open>
  What \<^verbatim>\<open>localStorage.setItem\<close> is given: the serialised books, streaks, activity feed
  or achievements. \<^verbatim>\<open>localStorage\<close> itself is the journal of the \<^verbatim>\<open>setItem\<close> calls,
  newest first, so that a write is visible even when it stores an equal value.
\<close>

datatype document =
  BooksDoc "book list"
  | StreaksDoc int int
  | FeedDoc "activity list"
  | AchievementsDoc "achievement list"

text \<open>
  The global variables. The theme, the category filter and the hidden autocomplete
  suggestions only steer the rendering and are left out, as is the DOM.
\<close>

record store =
  books :: "book list"
  currentStreak :: int
  longestStreak :: int
  activityFeed :: "activity list"
  achievements :: "achievement list"
  dailyGoal :: int
  localStorage :: "(string \<times> document) list"

text \<open>
  One reading of the clock per handler call: \<open>iso\<close> is \<^verbatim>\<open>new Date().toISOString()\<close>,
  \<open>isoDay\<close> the day its date part denotes, \<open>localDay\<close> the day of
  \<^verbatim>\<open>new Date()\<close> after \<^verbatim>\<open>setHours(0, 0, 0, 0)\<close>, and \<open>millis\<close> is
  \<^verbatim>\<open>Date.now().toString()\<close>.
\<close>

record clock =
  iso :: string
  isoDay :: day
  localDay :: day
  millis :: string

text \<open>
  How a handler ends: it ran to its end, it alerted the user and returned, it returned
  silently, or it threw an exception nothing catches. The store beside the outcome is
  the state the handler left behind.
\<close>

datatype outcome = Applied | Rejected | Ignored | TypeError

definition setItem :: "string \<Rightarrow> document \<Rightarrow> store \<Rightarrow> store" where
  "setItem k v s = s\<lparr>localStorage := (k, v) # localStorage s\<rparr>"

definition saveBooks :: "store \<Rightarrow> store" where
  "saveBooks s = setItem ''books'' (BooksDoc (books s)) s"

definition saveStreaks :: "store \<Rightarrow> store" where
  "saveStreaks s = setItem ''streaks'' (StreaksDoc (currentStreak s) (longestStreak s)) s"

definition saveActivityFeed :: "store \<Rightarrow> store" where
  "saveActivityFeed s = setItem ''activityFeed'' (FeedDoc (activityFeed s)) s"

definition saveAchievements :: "store \<Rightarrow> store" where
  "saveAchievements s = setItem ''achievements'' (AchievementsDoc (achievements s)) s"

text \<open>
  \<^verbatim>\<open>books.find(b => b.id === bookId)\<close> returns the first matching object, and the
  handlers mutate that object in place: \<open>update_first\<close> rewrites the first element that
  satisfies the predicate and leaves every other position alone.
\<close>

fun update_first :: "('a \<Rightarrow> bool) \<Rightarrow> ('a \<Rightarrow> 'a) \<Rightarrow> 'a list \<Rightarrow> 'a list" where
  "update_first P f [] = []"
| "update_first P f (x # xs) = (if P x then f x # xs else x # update_first P f xs)"

text \<open>
  \<^verbatim>\<open>logs.sort((a, b) => new Date(b.date) - new Date(a.date))\<close>: a stable sort, newest
  day first.
\<close>

definition sortLogs :: "log_entry list \<Rightarrow> log_entry list" where
  "sortLogs ls = sort_key (\<lambda>l. - date l) ls"

section \<open>Activity feed\<close>

text \<open>\<^verbatim>\<open>unshift\<close>, then one \<^verbatim>\<open>pop\<close> when the feed has more than 50 entries.\<close>

definition addActivity :: "clock \<Rightarrow> activity_type \<Rightarrow> message \<Rightarrow> jstext \<Rightarrow> store \<Rightarrow> store" where
  "addActivity c t m bn s =
     (let feed = \<lparr>activity_type = t, message = m, bookName = bn, activity_date = iso c\<rparr>
                 # activityFeed s;
          feed' = (if length feed > 50 then butlast feed else feed)
      in saveActivityFeed (s\<lparr>activityFeed := feed'\<rparr>))"

section \<open>Streak calculator\<close>

text \<open>
  \<^verbatim>\<open>allDates\<close> is a JavaScript \<^verbatim>\<open>Set\<close>: adding keeps the first insertion of a value.
\<close>

definition Set_add :: "day list \<Rightarrow> day \<Rightarrow> day list" where
  "Set_add ds d = (if d \<in> set ds then ds else ds @ [d])"

definition allDates :: "book list \<Rightarrow> day list" where
  "allDates bs = foldl (\<lambda>acc b. foldl (\<lambda>acc l. Set_add acc (date l)) acc (logs b)) [] bs"

text \<open>
  The first loop: \<open>i\<close> is the index, \<open>streak\<close> the running \<^verbatim>\<open>currentStreak\<close>; the
  \<^verbatim>\<open>break\<close> is the branch that returns.
\<close>

fun currentLoop :: "day \<Rightarrow> int \<Rightarrow> int \<Rightarrow> day list \<Rightarrow> int" where
  "currentLoop today i streak [] = streak"
| "currentLoop today i streak (d # ds) =
     (if d = today - i then currentLoop today (i + 1) (streak + 1) ds else streak)"

text \<open>
  The second loop over adjacent pairs; the difference of two day numbers is the
  \<^verbatim>\<open>diffDays\<close> of the code.
\<close>

fun longestLoop :: "int \<Rightarrow> int \<Rightarrow> day list \<Rightarrow> int" where
  "longestLoop tempStreak maxStreak (d # e # ds) =
     (if d - e = 1
      then longestLoop (tempStreak + 1)
             (if tempStreak + 1 > maxStreak then tempStreak + 1 else maxStreak) (e # ds)
      else longestLoop 1 maxStreak (e # ds))"
| "longestLoop tempStreak maxStreak ds = maxStreak"

definition updateStreaks :: "day \<Rightarrow> store \<Rightarrow> store" where
  "updateStreaks today s =
     (let dates = allDates (books s)
      in if length dates = 0 then s\<lparr>currentStreak := 0, longestStreak := 0\<rparr>
         else
           let sortedDates = sort_key (\<lambda>d. - d) dates;
               cur = currentLoop today 0 0 sortedDates;
               maxStreak = longestLoop 1 1 sortedDates
           in s\<lparr>currentStreak := cur,
                longestStreak := max (longestStreak s) (max maxStreak cur)\<rparr>)"

section \<open>Achievements\<close>

text \<open>The fixed catalogue: an id and its predicate over the global state.\<close>

definition achievementsList :: "(string \<times> (store \<Rightarrow> bool)) list" where
  "achievementsList =
     [(''first-book'', \<lambda>s. length (books s) \<ge> 1),
      (''five-books'', \<lambda>s. length (books s) \<ge> 5),
      (''first-complete'', \<lambda>s. list_ex completed (books s)),
      (''five-complete'', \<lambda>s. length (filter completed (books s)) \<ge> 5),
      (''streak-7'', \<lambda>s. currentStreak s \<ge> 7),
      (''streak-30'', \<lambda>s. currentStreak s \<ge> 30)]"

text \<open>
  The body of the \<^verbatim>\<open>forEach\<close> in \<^verbatim>\<open>checkAchievements\<close>, threading the
  \<^verbatim>\<open>updated\<close> flag and the store.
\<close>

definition checkOne :: "clock \<Rightarrow> string \<times> (store \<Rightarrow> bool) \<Rightarrow> bool \<times> store \<Rightarrow> bool \<times> store" where
  "checkOne c rule acc =
     (let aid = fst rule; check = snd rule; updated = fst acc; s = snd acc
      in case find (\<lambda>a. ach_id a = aid) (achievements s) of
           None \<Rightarrow> (updated, s)
         | Some userAch \<Rightarrow>
             if \<not> unlocked userAch \<and> check s
             then (True,
                   addActivity c Achievement (Unlocked aid) []
                     (s\<lparr>achievements :=
                          update_first (\<lambda>a. ach_id a = aid) (\<lambda>a. a\<lparr>unlocked := True\<rparr>)
                            (achievements s)\<rparr>))
             else (updated, s))"

definition checkAchievements :: "clock \<Rightarrow> store \<Rightarrow> store" where
  "checkAchievements c s =
     (let r = foldl (\<lambda>acc rule. checkOne c rule acc) (False, s) achievementsList
      in if fst r then saveAchievements (snd r) else snd r)"

section \<open>Record store: the handlers\<close>

text \<open>
  \<^verbatim>\<open>String.prototype.trim\<close> removes, at both ends, the code units that ECMAScript
  calls white space or line terminators: tab, line feed, vertical tab, form feed,
  carriage return, space, no-break space (U+00A0), the other space separators (U+1680,
  U+2000 to U+200A, U+202F, U+205F, U+3000), the line and paragraph separators
  (U+2028, U+2029) and the byte order mark (U+FEFF).
\<close>

definition isWhitespace :: "code_unit \<Rightarrow> bool" where
  "isWhitespace u =
     (u \<in> set [0x09, 0x0A, 0x0B, 0x0C, 0x0D, 0x20, 0xA0, 0x1680, 0x2028, 0x2029, 0x202F,
                0x205F, 0x3000, 0xFEFF]
      \<or> (0x2000 \<le> u \<and> u \<le> 0x200A))"

definition trim :: "jstext \<Rightarrow> jstext" where
  "trim str = rev (dropWhile isWhitespace (rev (dropWhile isWhitespace str)))"

text \<open>
  The form fields arrive as arguments: the raw text inputs, the checked radio values
  and, for each number input, the value of \<^verbatim>\<open>parseInt(...) || 0\<close>. The handlers
  that read an amount all do it the same way: the pages field for a paper book, hours
  and minutes otherwise.
\<close>

definition formAmount :: "string \<Rightarrow> int \<Rightarrow> int \<Rightarrow> int \<Rightarrow> int" where
  "formAmount type pages hours minutes =
     (if type = ''paper'' then pages else hours * 60 + minutes)"

definition handleAddBook ::
  "clock \<Rightarrow> jstext \<Rightarrow> jstext \<Rightarrow> string \<Rightarrow> string \<Rightarrow> jstext \<Rightarrow> int \<Rightarrow> int \<Rightarrow> int \<Rightarrow> store
     \<Rightarrow> outcome \<times> store" where
  "handleAddBook c rawName rawAuthor type cat rawCover pages hours minutes s =
     (let nm = trim rawName; au = trim rawAuthor; cover = trim rawCover;
          tot = formAmount type pages hours minutes
      in if nm = [] \<or> au = [] \<or> tot \<le> 0 then (Rejected, s)
         else
           let b = Book (millis c) nm au type tot cat cover;
               s1 = saveBooks (s\<lparr>books := books s @ [b]\<rparr>);
               s2 = addActivity c Adding (BookAdded nm) nm s1
           in (Applied, checkAchievements c s2))"

definition handleAddLog ::
  "clock \<Rightarrow> string \<Rightarrow> day \<Rightarrow> int \<Rightarrow> int \<Rightarrow> int \<Rightarrow> store \<Rightarrow> outcome \<times> store" where
  "handleAddLog c bookId d pages hours minutes s =
     (case find (\<lambda>b. book_id b = bookId) (books s) of
        None \<Rightarrow> (Ignored, s)
      | Some bk \<Rightarrow>
          let amt = formAmount (book_type bk) pages hours minutes
          in if amt \<le> 0 then (Rejected, s)
             else
               let s1 = saveBooks (s\<lparr>books :=
                          update_first (\<lambda>b. book_id b = bookId)
                            (\<lambda>b. updateStatus
                                   (b\<lparr>logs := sortLogs (logs b @ [\<lparr>date = d, amount = amt\<rparr>])\<rparr>))
                            (books s)\<rparr>);
                   s2 = saveStreaks (updateStreaks (localDay c) s1);
                   unit = (if book_type bk = ''paper'' then Pages else Minutes);
                   s3 = addActivity c Progress (ProgressLogged amt unit (name bk)) (name bk) s2
               in (Applied, checkAchievements c s3))"

definition changeBookCategory :: "string \<Rightarrow> string \<Rightarrow> store \<Rightarrow> outcome \<times> store" where
  "changeBookCategory bookId newCategory s =
     (case find (\<lambda>b. book_id b = bookId) (books s) of
        None \<Rightarrow> (Ignored, s)
      | Some bk \<Rightarrow>
          (Applied,
           saveBooks (s\<lparr>books :=
             update_first (\<lambda>b. book_id b = bookId) (\<lambda>b. b\<lparr>category := newCategory\<rparr>)
               (books s)\<rparr>)))"

text \<open>
  What \<^verbatim>\<open>toggleBookCompletion\<close> does to the book it found: the synthetic log when the
  book is being marked completed with something remaining, the flip of the flag, and
  \<^verbatim>\<open>updateStatus\<close>.
\<close>

definition toggleBook :: "clock \<Rightarrow> book \<Rightarrow> book" where
  "toggleBook c b =
     (let b1 = (if \<not> completed b
                then let remaining = getRemainingAmount b
                     in if remaining > 0
                        then b\<lparr>logs := sortLogs (logs b @ [\<lparr>date = isoDay c, amount = remaining\<rparr>])\<rparr>
                        else b
                else b)
      in updateStatus (b1\<lparr>completed := \<not> completed b1\<rparr>))"

definition toggleBookCompletion :: "clock \<Rightarrow> string \<Rightarrow> store \<Rightarrow> outcome \<times> store" where
  "toggleBookCompletion c bookId s =
     (case find (\<lambda>b. book_id b = bookId) (books s) of
        None \<Rightarrow> (Ignored, s)
      | Some bk \<Rightarrow>
          let s0 = (if \<not> completed bk
                    then addActivity c Completing (BookCompleted (name bk)) (name bk) s
                    else s);
              s1 = saveBooks (s0\<lparr>books :=
                     update_first (\<lambda>b. book_id b = bookId) (toggleBook c) (books s0)\<rparr>);
              s2 = saveStreaks (updateStreaks (localDay c) s1)
          in (Applied, checkAchievements c s2))"

text \<open>
  \<^verbatim>\<open>deleteBook\<close> looks the book up, asks for confirmation (the argument \<open>confirmed\<close>)
  and then reads \<^verbatim>\<open>book.name\<close> without a guard: for an unknown id that read throws a
  \<^verbatim>\<open>TypeError\<close> before \<^verbatim>\<open>addActivity\<close> is entered. The filter removes every book with
  the id.
\<close>

definition deleteBook :: "clock \<Rightarrow> string \<Rightarrow> bool \<Rightarrow> store \<Rightarrow> outcome \<times> store" where
  "deleteBook c bookId confirmed s =
     (let found = find (\<lambda>b. book_id b = bookId) (books s)
      in if confirmed
         then (case found of
                 None \<Rightarrow> (TypeError, s)
               | Some bk \<Rightarrow>
                   let s1 = addActivity c Deleting (BookDeleted (name bk)) (name bk) s
                   in (Applied,
                       saveBooks (s1\<lparr>books := filter (\<lambda>b. book_id b \<noteq> bookId) (books s1)\<rparr>)))
         else (Ignored, s))"

definition handleEditBook ::
  "clock \<Rightarrow> string \<Rightarrow> jstext \<Rightarrow> jstext \<Rightarrow> string \<Rightarrow> string \<Rightarrow> jstext \<Rightarrow> int \<Rightarrow> int \<Rightarrow> int \<Rightarrow> store
     \<Rightarrow> outcome \<times> store" where
  "handleEditBook c bookId rawName rawAuthor cat type rawCover pages hours minutes s =
     (case find (\<lambda>b. book_id b = bookId) (books s) of
        None \<Rightarrow> (Ignored, s)
      | Some bk \<Rightarrow>
          let edit = (\<lambda>b. updateStatus
                 (b\<lparr>name := trim rawName, author := trim rawAuthor, category := cat,
                    book_type := type, coverUrl := trim rawCover,
                    total := formAmount type pages hours minutes\<rparr>));
              s1 = saveBooks (s\<lparr>books :=
                     update_first (\<lambda>b. book_id b = bookId) edit (books s)\<rparr>)
          in (Applied, addActivity c Editing (BookEdited (trim rawName)) (trim rawName) s1))"

section \<open>Snapshot export and import\<close>

text \<open>
  The export document after \<^verbatim>\<open>JSON.parse\<close>: every top-level key may be missing. A book
  entry has the fields \<^verbatim>\<open>JSON.stringify\<close> writes for a \<^verbatim>\<open>Book\<close>.
\<close>

record snapshot =
  snap_books :: "book list option"
  snap_streaks :: "(int \<times> int) option"
  snap_activityFeed :: "activity list option"
  snap_achievements :: "achievement list option"
  snap_dailyGoal :: "int option"
  exportDate :: string

definition exportData :: "clock \<Rightarrow> store \<Rightarrow> snapshot \<times> store" where
  "exportData c s =
     (\<lparr>snap_books = Some (books s),
       snap_streaks = Some (currentStreak s, longestStreak s),
       snap_activityFeed = Some (activityFeed s),
       snap_achievements = Some (achievements s),
       snap_dailyGoal = Some (dailyGoal s),
       exportDate = iso c\<rparr>,
      addActivity c Export DataExported [] s)"

text \<open>\<^verbatim>\<open>x || d\<close> on a string: the empty string is falsy.\<close>

definition orDefault :: "string \<Rightarrow> string \<Rightarrow> string" where
  "orDefault x d = (if x = [] then d else x)"

definition restoreBook :: "book \<Rightarrow> book" where
  "restoreBook bookData =
     (Book (book_id bookData) (name bookData) (author bookData) (book_type bookData)
        (total bookData) (orDefault (category bookData) ''mama'') (coverUrl bookData))
       \<lparr>logs := logs bookData, completed := completed bookData,
        status := orDefault (status bookData) ''planned''\<rparr>"

text \<open>
  \<^verbatim>\<open>importData\<close>, from the \<^verbatim>\<open>onload\<close> callback on: \<open>parsed\<close> is \<open>None\<close> when
  \<^verbatim>\<open>JSON.parse\<close> throws (the \<^verbatim>\<open>catch\<close> alerts), \<open>confirmed\<close> is the answer to the
  confirmation dialog.
\<close>

definition importData :: "clock \<Rightarrow> snapshot option \<Rightarrow> bool \<Rightarrow> store \<Rightarrow> outcome \<times> store" where
  "importData c parsed confirmed s =
     (case parsed of
        None \<Rightarrow> (Rejected, s)
      | Some data \<Rightarrow>
          if \<not> confirmed then (Ignored, s)
          else
            let s1 = (case snap_books data of
                        None \<Rightarrow> s
                      | Some bs \<Rightarrow> saveBooks (s\<lparr>books := map restoreBook bs\<rparr>));
                s2 = (case snap_streaks data of
                        None \<Rightarrow> s1
                      | Some st \<Rightarrow>
                          saveStreaks (s1\<lparr>currentStreak := fst st, longestStreak := snd st\<rparr>));
                s3 = (case snap_activityFeed data of
                        None \<Rightarrow> s2
                      | Some feed \<Rightarrow> saveActivityFeed (s2\<lparr>activityFeed := feed\<rparr>));
                s4 = (case snap_achievements data of
                        None \<Rightarrow> s3
                      | Some achs \<Rightarrow> saveAchievements (s3\<lparr>achievements := achs\<rparr>));
                s5 = (case snap_dailyGoal data of
                        None \<Rightarrow> s4
                      | Some g \<Rightarrow> if g \<noteq> 0 then s4\<lparr>dailyGoal := g\<rparr> else s4)
            in (Applied, addActivity c Import DataImported [] s5))"

section \<open>Sequences of operations\<close>

text \<open>
  A user action: one handler call with its inputs, or the streak recomputation on its
  own, as the page runs it when it loads.
\<close>

datatype action =
  AddBook jstext jstext string string jstext int int int
  | AddLog string day int int int
  | ToggleCompletion string
  | ChangeCategory string string
  | DeleteBook string bool
  | EditBook string jstext jstext string string jstext int int int
  | UpdateStreaks
  | ExportData
  | ImportData "snapshot option" bool

fun step :: "clock \<Rightarrow> action \<Rightarrow> store \<Rightarrow> store" where
  "step c (AddBook n a t cat cover pages hours minutes) s =
     snd (handleAddBook c n a t cat cover pages hours minutes s)"
| "step c (AddLog bookId d pages hours minutes) s =
     snd (handleAddLog c bookId d pages hours minutes s)"
| "step c (ToggleCompletion bookId) s = snd (toggleBookCompletion c bookId s)"
| "step c (ChangeCategory bookId cat) s = snd (changeBookCategory bookId cat s)"
| "step c (DeleteBook bookId confirmed) s = snd (deleteBook c bookId confirmed s)"
| "step c (EditBook bookId n a cat t cover pages hours minutes) s =
     snd (handleEditBook c bookId n a cat t cover pages hours minutes s)"
| "step c UpdateStreaks s = updateStreaks (localDay c) s"
| "step c ExportData s = snd (exportData c s)"
| "step c (ImportData parsed confirmed) s = snd (importData c parsed confirmed s)"

fun run :: "(clock \<times> action) list \<Rightarrow> store \<Rightarrow> store" where
  "run [] s = s"
| "run ((c, a) # rest) s = run rest (step c a s)"

fun isImport :: "action \<Rightarrow> bool" where
  "isImport (ImportData parsed confirmed) = True"
| "isImport a = False"

text \<open>
  The state of a page loaded with nothing saved: the initial values of the globals,
  and the achievement table as \<^verbatim>\<open>initializeAchievements\<close> builds it, all locked.
\<close>

definition emptyStore :: store where
  "emptyStore =
     \<lparr>books = [], currentStreak = 0, longestStreak = 0, activityFeed = [],
      achievements = map (\<lambda>r. \<lparr>ach_id = fst r, unlocked = False\<rparr>) achievementsList,
      dailyGoal = 50, localStorage = []\<rparr>"

section \<open>Vocabulary of the properties\<close>

text \<open>
  Two achievement tables, before and after some operations: the same ids at the same
  positions, and no entry that was unlocked is locked afterwards.
\<close>

definition keepsUnlocked :: "achievement list \<Rightarrow> achievement list \<Rightarrow> bool" where
  "keepsUnlocked before after =
     list_all2 (\<lambda>x y. ach_id y = ach_id x \<and> (unlocked x \<longrightarrow> unlocked y)) before after"

definition noImport :: "(clock \<times> action) list \<Rightarrow> bool" where
  "noImport ops = list_all (\<lambda>ca. \<not> isImport (snd ca)) ops"

text \<open>
  Export, then import of the exported document, confirmed, with nothing in between.
\<close>

definition exportThenImport :: "clock \<Rightarrow> clock \<Rightarrow> store \<Rightarrow> store" where
  "exportThenImport c1 c2 s =
     snd (importData c2 (Some (fst (exportData c1 s))) True (snd (exportData c1 s)))"

section \<open>Example states\<close>


definition clockAt :: "day \<Rightarrow> string \<Rightarrow> clock" where
  "clockAt d ms = \<lparr>iso = ''T'', isoDay = d, localDay = d, millis = ms\<rparr>"

definition clockOn :: "day \<Rightarrow> clock" where
  "clockOn d = \<lparr>iso = ''T'', isoDay = d, localDay = d, millis = ''1''\<rparr>"

definition duneStore :: store where
  "duneStore =
     run [(clockOn 1, AddBook (utf16 ''Dune'') (utf16 ''Herbert'') ''paper'' ''choice'' [] 400 0 0),
          (clockOn 1, AddLog ''1'' 1 100 0 0),
          (clockOn 2, AddLog ''1'' 2 100 0 0),
          (clockOn 3, AddLog ''1'' 3 100 0 0)] emptyStore"

definition duneBook :: book where
  "duneBook =
     \<lparr>book_id = ''1'', name = utf16 ''Dune'', author = utf16 ''Herbert'',
      book_type = ''paper'', total = 400, category = ''choice'', coverUrl = [],
      logs = [\<lparr>date = 3, amount = 100\<rparr>, \<lparr>date = 2, amount = 100\<rparr>,
              \<lparr>date = 1, amount = 100\<rparr>],
      status = ''in-progress'', completed = False\<rparr>"

definition emptiedStore :: store where
  "emptiedStore = step (clockOn 3) (DeleteBook ''1'' True) duneStore"

definition finishedStore :: store where
  "finishedStore = step (clockOn 3) (ToggleCompletion ''1'') duneStore"

definition finishedBook :: book where
  "finishedBook = toggleBook (clockOn 3) duneBook"

definition shelfDune :: book where
  "shelfDune = Book ''1'' (utf16 ''Dune'') (utf16 ''Herbert'') ''paper'' 400 ''choice'' []"

definition shelfEmma :: book where
  "shelfEmma = Book ''2'' (utf16 ''Emma'') (utf16 ''Austen'') ''paper'' 300 ''mama'' []"

definition shelfUlysses :: book where
  "shelfUlysses = Book ''3'' (utf16 ''Ulysses'') (utf16 ''Joyce'') ''audio'' 1230 ''yavor'' []"

definition shelfStore :: store where
  "shelfStore =
     run [(clockAt 1 ''1'',
             AddBook (utf16 ''Dune'') (utf16 ''Herbert'') ''paper'' ''choice'' [] 400 0 0),
          (clockAt 1 ''2'',
             AddBook (utf16 ''Emma'') (utf16 ''Austen'') ''paper'' ''mama'' [] 300 0 0),
          (clockAt 1 ''3'',
             AddBook (utf16 ''Ulysses'') (utf16 ''Joyce'') ''audio'' ''yavor'' [] 0 20 30)]
       emptyStore"




section \<open>Properties of the progress engine\<close>













lemma toDouble_1: "toDouble 1 = 1"
  by code_simp

lemma toDouble_100: "toDouble 100 = 100"
  by code_simp







section \<open>What each step leaves alone\<close>

lemma setItem_fields [simp]:
  "books (setItem k v s) = books s"
  "currentStreak (setItem k v s) = currentStreak s"
  "longestStreak (setItem k v s) = longestStreak s"
  "activityFeed (setItem k v s) = activityFeed s"
  "achievements (setItem k v s) = achievements s"
  "dailyGoal (setItem k v s) = dailyGoal s"
  by (simp_all add: setItem_def)

lemma save_fields [simp]:
  "books (saveBooks s) = books s"
  "currentStreak (saveBooks s) = currentStreak s"
  "longestStreak (saveBooks s) = longestStreak s"
  "activityFeed (saveBooks s) = activityFeed s"
  "achievements (saveBooks s) = achievements s"
  "dailyGoal (saveBooks s) = dailyGoal s"
  "books (saveStreaks s) = books s"
  "currentStreak (saveStreaks s) = currentStreak s"
  "longestStreak (saveStreaks s) = longestStreak s"
  "activityFeed (saveStreaks s) = activityFeed s"
  "achievements (saveStreaks s) = achievements s"
  "dailyGoal (saveStreaks s) = dailyGoal s"
  "books (saveActivityFeed s) = books s"
  "currentStreak (saveActivityFeed s) = currentStreak s"
  "longestStreak (saveActivityFeed s) = longestStreak s"
  "activityFeed (saveActivityFeed s) = activityFeed s"
  "achievements (saveActivityFeed s) = achievements s"
  "dailyGoal (saveActivityFeed s) = dailyGoal s"
  "books (saveAchievements s) = books s"
  "currentStreak (saveAchievements s) = currentStreak s"
  "longestStreak (saveAchievements s) = longestStreak s"
  "activityFeed (saveAchievements s) = activityFeed s"
  "achievements (saveAchievements s) = achievements s"
  "dailyGoal (saveAchievements s) = dailyGoal s"
  by (simp_all add: saveBooks_def saveStreaks_def saveActivityFeed_def saveAchievements_def)

lemma addActivity_fields [simp]:
  "books (addActivity c t m bn s) = books s"
  "currentStreak (addActivity c t m bn s) = currentStreak s"
  "longestStreak (addActivity c t m bn s) = longestStreak s"
  "achievements (addActivity c t m bn s) = achievements s"
  "dailyGoal (addActivity c t m bn s) = dailyGoal s"
  by (simp_all add: addActivity_def Let_def)

lemma updateStreaks_fields [simp]:
  "books (updateStreaks today s) = books s"
  "activityFeed (updateStreaks today s) = activityFeed s"
  "achievements (updateStreaks today s) = achievements s"
  "dailyGoal (updateStreaks today s) = dailyGoal s"
  "localStorage (updateStreaks today s) = localStorage s"
  by (simp_all add: updateStreaks_def Let_def)

lemma checkOne_fields:
  "books (snd (checkOne c r acc)) = books (snd acc)"
  "currentStreak (snd (checkOne c r acc)) = currentStreak (snd acc)"
  "longestStreak (snd (checkOne c r acc)) = longestStreak (snd acc)"
  "dailyGoal (snd (checkOne c r acc)) = dailyGoal (snd acc)"
  by (simp_all add: checkOne_def Let_def split: option.splits)

lemma foldl_checkOne_fields:
  "books (snd (foldl (\<lambda>acc rule. checkOne c rule acc) acc rs)) = books (snd acc)"
  "currentStreak (snd (foldl (\<lambda>acc rule. checkOne c rule acc) acc rs)) = currentStreak (snd acc)"
  "longestStreak (snd (foldl (\<lambda>acc rule. checkOne c rule acc) acc rs)) = longestStreak (snd acc)"
  "dailyGoal (snd (foldl (\<lambda>acc rule. checkOne c rule acc) acc rs)) = dailyGoal (snd acc)"
  by (induction rs arbitrary: acc; simp add: checkOne_fields)+

lemma checkAchievements_fields [simp]:
  "books (checkAchievements c s) = books s"
  "currentStreak (checkAchievements c s) = currentStreak s"
  "longestStreak (checkAchievements c s) = longestStreak s"
  "dailyGoal (checkAchievements c s) = dailyGoal s"
  by (simp_all add: checkAchievements_def Let_def foldl_checkOne_fields)

section \<open>Streak recomputation\<close>

lemma set_Set_add: "set (Set_add ds d) = insert d (set ds)"
  by (auto simp: Set_add_def)

lemma set_foldl_Set_add:
  "set (foldl (\<lambda>acc l. Set_add acc (date l)) acc ls) = set acc \<union> date ` set ls"
  by (induction ls arbitrary: acc) (auto simp: set_Set_add)

lemma set_foldl_books:
  "set (foldl (\<lambda>acc b. foldl (\<lambda>acc l. Set_add acc (date l)) acc (logs b)) acc bs)
     = set acc \<union> (\<Union>b\<in>set bs. date ` set (logs b))"
  by (induction bs arbitrary: acc) (auto simp: set_foldl_Set_add)

lemma set_allDates: "set (allDates bs) = (\<Union>b\<in>set bs. date ` set (logs b))"
  by (simp add: allDates_def set_foldl_books)

lemma allDates_empty_iff: "allDates bs = [] \<longleftrightarrow> (\<forall>b\<in>set bs. logs b = [])"
proof -
  have "allDates bs = [] \<longleftrightarrow> set (allDates bs) = {}" by simp
  also have "\<dots> \<longleftrightarrow> (\<forall>b\<in>set bs. logs b = [])" by (simp add: set_allDates)
  finally show ?thesis .
qed

text \<open>
  Claim C6. When the set of distinct log dates across all books is empty, the streak
  recomputation sets the current and the longest streak to 0, whatever they were.
\<close>

theorem updateStreaks_no_dates:
  assumes "set (allDates (books s)) = {}"
  shows "currentStreak (updateStreaks today s) = 0 \<and> longestStreak (updateStreaks today s) = 0"
  using assms by (simp add: updateStreaks_def)

text \<open>
  The hypothesis of C6 holds of the example store once its only book has been
  deleted; the longest streak of 3 is reset.
\<close>

theorem updateStreaks_no_dates_witness:
  "set (allDates (books emptiedStore)) = {}
   \<and> longestStreak emptiedStore = 3
   \<and> currentStreak (updateStreaks 3 emptiedStore) = 0
   \<and> longestStreak (updateStreaks 3 emptiedStore) = 0"
proof -
  have b: "books emptiedStore = []" by code_simp
  have h: "set (allDates (books emptiedStore)) = {}"
    by (simp add: b allDates_def)
  have l: "longestStreak emptiedStore = 3" by code_simp
  show ?thesis
    using updateStreaks_no_dates [OF h, of 3] h l by simp
qed




section \<open>The example states, evaluated\<close>

lemma books_duneStore: "books duneStore = [duneBook]"
  by code_simp

lemma books_finishedStore: "books finishedStore = [finishedBook]"
  by code_simp

lemma books_shelfStore: "books shelfStore = [shelfDune, shelfEmma, shelfUlysses]"
  by code_simp

lemma streaks_duneStore: "currentStreak duneStore = 3 \<and> longestStreak duneStore = 3"
  by code_simp



lemma find_None_unknown:
  "(\<forall>b\<in>set bs. book_id b \<noteq> bookId) \<Longrightarrow> find (\<lambda>b. book_id b = bookId) bs = None"
  by (simp add: find_None_iff)

text \<open>
  Claim C4. For a book id that no book of the store has, appending a log, toggling
  completion and changing the category return silently with the store unchanged:
  books, streaks, activity feed, achievements and the journal of persistence writes
  are what they were. Deleting leaves the store unchanged as well: without
  confirmation nothing happens, and with it the handler throws a \<^verbatim>\<open>TypeError\<close>
  before its first effect.
\<close>

theorem unknown_book_id_no_op:
  assumes "\<forall>b\<in>set (books s). book_id b \<noteq> bookId"
  shows "handleAddLog c bookId d pages hours minutes s = (Ignored, s)
       \<and> toggleBookCompletion c bookId s = (Ignored, s)
       \<and> changeBookCategory bookId cat s = (Ignored, s)
       \<and> deleteBook c bookId confirmed s = (if confirmed then TypeError else Ignored, s)"
proof -
  have none: "find (\<lambda>b. book_id b = bookId) (books s) = None"
    using assms by (rule find_None_unknown)
  show ?thesis
    by (simp add: none handleAddLog_def toggleBookCompletion_def changeBookCategory_def
                  deleteBook_def)
qed

text \<open>
  The hypothesis of C4 holds of the id \<^verbatim>\<open>2\<close> in the example store, whose only book has
  the id \<^verbatim>\<open>1\<close>.
\<close>

theorem unknown_book_id_no_op_witness:
  "map book_id (books duneStore) = [''1'']
   \<and> handleAddLog (clockOn 4) ''2'' 4 10 0 0 duneStore = (Ignored, duneStore)
   \<and> toggleBookCompletion (clockOn 4) ''2'' duneStore = (Ignored, duneStore)
   \<and> changeBookCategory ''2'' ''mama'' duneStore = (Ignored, duneStore)
   \<and> deleteBook (clockOn 4) ''2'' True duneStore = (TypeError, duneStore)"
proof -
  have h: "\<forall>b\<in>set (books duneStore). book_id b \<noteq> ''2''"
    by (simp add: books_duneStore duneBook_def)
  show ?thesis
    using unknown_book_id_no_op [OF h, of "clockOn 4" 4 10 0 0 "''mama''" True]
    by (simp add: books_duneStore duneBook_def)
qed

text \<open>
  Claim C7. Creating a book with a name or an author that is empty after trimming, or
  with a target that is not positive, is rejected and returns the store as it was;
  so is appending a log whose amount is not positive. The whole store is unchanged:
  books with their logs, streaks, activity feed, achievements and persistence journal.
\<close>

theorem invalid_input_rejected_unchanged:
  "(trim rawName = [] \<or> trim rawAuthor = [] \<or> formAmount type pages hours minutes \<le> 0
      \<longrightarrow> handleAddBook c rawName rawAuthor type cat rawCover pages hours minutes s = (Rejected, s))
   \<and> (find (\<lambda>b. book_id b = bookId) (books s) = Some bk \<and> formAmount (book_type bk) p h m \<le> 0
      \<longrightarrow> handleAddLog c bookId d p h m s = (Rejected, s))"
  by (auto simp: handleAddBook_def handleAddLog_def Let_def)

text \<open>
  The hypotheses of C7 at concrete inputs: a name of three blanks, a name that is one
  no-break space, an author made of an ideographic space and an em space, an audio
  book whose hours and minutes are 0 (the pages field is not read), and a log of 0
  pages.
\<close>

theorem invalid_input_rejected_unchanged_witness:
  "trim [0x20, 0x20, 0x20] = [] \<and> trim [0xA0] = [] \<and> trim [0x3000, 0x2003] = []
   \<and> formAmount ''audio'' 400 0 0 \<le> 0 \<and> formAmount ''paper'' 0 0 0 \<le> 0
   \<and> handleAddBook (clockOn 4) [0x20, 0x20, 0x20] (utf16 ''Herbert'') ''paper'' ''choice'' []
         400 0 0 duneStore
       = (Rejected, duneStore)
   \<and> handleAddBook (clockOn 4) [0xA0] (utf16 ''Herbert'') ''paper'' ''choice'' []
         400 0 0 duneStore
       = (Rejected, duneStore)
   \<and> handleAddBook (clockOn 4) (utf16 ''Dune'') [0x3000, 0x2003] ''paper'' ''choice'' []
         400 0 0 duneStore
       = (Rejected, duneStore)
   \<and> handleAddBook (clockOn 4) (utf16 ''Dune'') (utf16 ''Herbert'') ''audio'' ''choice'' []
         400 0 0 duneStore
       = (Rejected, duneStore)
   \<and> handleAddLog (clockOn 4) ''1'' 4 0 0 0 duneStore = (Rejected, duneStore)"
proof -
  have t1: "trim [0x20, 0x20, 0x20] = []" by (simp add: trim_def isWhitespace_def)
  have t2: "trim [0xA0] = []" by (simp add: trim_def isWhitespace_def)
  have t3: "trim [0x3000, 0x2003] = []" by (simp add: trim_def isWhitespace_def)
  have a: "formAmount ''audio'' 400 0 0 \<le> 0" by (simp add: formAmount_def)
  have f: "find (\<lambda>b. book_id b = ''1'') (books duneStore) = Some duneBook"
    by (simp add: books_duneStore duneBook_def)
  have z: "formAmount (book_type duneBook) 0 0 0 \<le> 0"
    by (simp add: formAmount_def)
  have z': "formAmount ''paper'' 0 0 0 \<le> 0" by (simp add: formAmount_def)
  from invalid_input_rejected_unchanged
         [of "[0x20, 0x20, 0x20]" "utf16 ''Herbert''" "''paper''" 400 0 0 "clockOn 4"
             "''choice''" "[]" duneStore "''1''" duneBook 0 0 0 4]
  have r1: "handleAddBook (clockOn 4) [0x20, 0x20, 0x20] (utf16 ''Herbert'') ''paper''
              ''choice'' [] 400 0 0 duneStore = (Rejected, duneStore)"
    and r5: "handleAddLog (clockOn 4) ''1'' 4 0 0 0 duneStore = (Rejected, duneStore)"
    using t1 f z by simp_all
  from invalid_input_rejected_unchanged
         [of "[0xA0]" "utf16 ''Herbert''" "''paper''" 400 0 0 "clockOn 4" "''choice''" "[]"
             duneStore]
  have r2: "handleAddBook (clockOn 4) [0xA0] (utf16 ''Herbert'') ''paper'' ''choice'' []
              400 0 0 duneStore = (Rejected, duneStore)"
    using t2 by simp
  from invalid_input_rejected_unchanged
         [of "utf16 ''Dune''" "[0x3000, 0x2003]" "''paper''" 400 0 0 "clockOn 4" "''choice''"
             "[]" duneStore]
  have r3: "handleAddBook (clockOn 4) (utf16 ''Dune'') [0x3000, 0x2003] ''paper'' ''choice'' []
              400 0 0 duneStore = (Rejected, duneStore)"
    using t3 by simp
  from invalid_input_rejected_unchanged
         [of "utf16 ''Dune''" "utf16 ''Herbert''" "''audio''" 400 0 0 "clockOn 4" "''choice''"
             "[]" duneStore]
  have r4: "handleAddBook (clockOn 4) (utf16 ''Dune'') (utf16 ''Herbert'') ''audio'' ''choice''
              [] 400 0 0 duneStore = (Rejected, duneStore)"
    using a by simp
  show ?thesis using t1 t2 t3 a z' r1 r2 r3 r4 r5 by simp
qed

section \<open>The book a handler finds and rewrites\<close>

lemma find_update_first:
  "find P xs = Some x \<Longrightarrow> P (f x) \<Longrightarrow> find P (update_first P f xs) = Some (f x)"
  by (induction xs) (auto split: if_splits)

lemma update_first_split:
  "find P xs = Some x \<Longrightarrow>
   \<exists>pre post. xs = pre @ x # post \<and> (\<forall>y\<in>set pre. \<not> P y)
     \<and> update_first P f xs = pre @ f x # post"
proof (induction xs)
  case Nil
  then show ?case by simp
next
  case (Cons y ys)
  show ?case
  proof (cases "P y")
    case True
    with Cons.prems have "x = y" by simp
    with True have "y # ys = [] @ x # ys \<and> (\<forall>z\<in>set []. \<not> P z)
        \<and> update_first P f (y # ys) = [] @ f x # ys" by simp
    then show ?thesis by blast
  next
    case False
    with Cons.prems have "find P ys = Some x" by simp
    from Cons.IH [OF this] obtain pre post where
      "ys = pre @ x # post" "\<forall>z\<in>set pre. \<not> P z" "update_first P f ys = pre @ f x # post"
      by blast
    with False have "y # ys = (y # pre) @ x # post \<and> (\<forall>z\<in>set (y # pre). \<not> P z)
        \<and> update_first P f (y # ys) = (y # pre) @ f x # post" by simp
    then show ?thesis by blast
  qed
qed

lemma find_Some_holds: "find P xs = Some x \<Longrightarrow> P x"
  by (induction xs) (auto split: if_splits)

lemma updateStatus_fields [simp]:
  "book_id (updateStatus b) = book_id b"
  "name (updateStatus b) = name b"
  "author (updateStatus b) = author b"
  "book_type (updateStatus b) = book_type b"
  "total (updateStatus b) = total b"
  "category (updateStatus b) = category b"
  "coverUrl (updateStatus b) = coverUrl b"
  "logs (updateStatus b) = logs b"
  by (simp_all add: updateStatus_def Let_def)

lemma getTotalProgress_updateStatus [simp]:
  "getTotalProgress (updateStatus b) = getTotalProgress b"
  by (simp add: getTotalProgress_def)

lemma getTotalProgress_cong: "logs b' = logs b \<Longrightarrow> getTotalProgress b' = getTotalProgress b"
  by (simp add: getTotalProgress_def)



lemma toggleBook_book_id [simp]: "book_id (toggleBook c b) = book_id b"
  by (simp add: toggleBook_def Let_def)

lemma toggleBook_total [simp]: "total (toggleBook c b) = total b"
  by (simp add: toggleBook_def Let_def)

lemma books_toggleBookCompletion:
  "find (\<lambda>b. book_id b = bookId) (books s) = Some bk \<Longrightarrow>
   books (snd (toggleBookCompletion c bookId s))
     = update_first (\<lambda>b. book_id b = bookId) (toggleBook c) (books s)"
  by (simp add: toggleBookCompletion_def Let_def)

lemma find_toggleBookCompletion:
  assumes "find (\<lambda>b. book_id b = bookId) (books s) = Some bk"
  shows "find (\<lambda>b. book_id b = bookId) (books (snd (toggleBookCompletion c bookId s)))
           = Some (toggleBook c bk)"
proof -
  have "book_id bk = bookId" using find_Some_holds [OF assms] .
  then have "book_id (toggleBook c bk) = bookId" by simp
  with assms show ?thesis
    by (simp add: books_toggleBookCompletion find_update_first)
qed




text \<open>
  What the handler does to a book whose completed flag is true: no log entry is
  removed and the total progress is as it was; the flag, flipped to false, is set again
  by the status recomputation when the progress is not 0 and has reached the target.
\<close>

lemma toggle_off_keeps_history:
  assumes found: "find (\<lambda>b. book_id b = bookId) (books s) = Some bk"
    and finished: "completed bk"
  shows "find (\<lambda>b. book_id b = bookId) (books (snd (toggleBookCompletion c bookId s)))
           = Some (toggleBook c bk)
       \<and> logs (toggleBook c bk) = logs bk
       \<and> getTotalProgress (toggleBook c bk) = getTotalProgress bk
       \<and> (completed (toggleBook c bk)
            \<longleftrightarrow> getTotalProgress bk \<noteq> 0 \<and> total bk \<le> getTotalProgress bk)"
proof -
  have tb: "toggleBook c bk = updateStatus (bk\<lparr>completed := False\<rparr>)"
    using finished by (simp add: toggleBook_def Let_def)
  have p0: "getTotalProgress (bk\<lparr>completed := False\<rparr>) = getTotalProgress bk"
    by (simp add: getTotalProgress_def)
  have l: "logs (toggleBook c bk) = logs bk" by (simp add: tb)
  have p: "getTotalProgress (toggleBook c bk) = getTotalProgress bk"
    by (simp add: tb p0)
  have f: "completed (toggleBook c bk)
            \<longleftrightarrow> getTotalProgress bk \<noteq> 0 \<and> total bk \<le> getTotalProgress bk"
    by (simp add: tb updateStatus_def Let_def p0)
  show ?thesis
    using find_toggleBookCompletion [OF found, of c] l p f by simp
qed

text \<open>
  Claim C3 against the code. The claim says that toggling completion on a completed
  book clears the flag. The handler flips the flag, and the status recomputation it
  calls next sets it again: the book of the example, completed through the toggle with
  400 of 400 pages, is still flagged completed, with the status completed, after its
  completion has been toggled off; its logs are untouched.
\<close>

theorem toggle_off_leaves_flag_set:
  "map completed (books finishedStore) = [True]
   \<and> map completed (books (snd (toggleBookCompletion (clockOn 4) ''1'' finishedStore))) = [True]
   \<and> map status (books (snd (toggleBookCompletion (clockOn 4) ''1'' finishedStore)))
       = [''completed'']
   \<and> map logs (books (snd (toggleBookCompletion (clockOn 4) ''1'' finishedStore)))
       = map logs (books finishedStore)"
  by code_simp

section \<open>Appending a log touches one book\<close>

text \<open>
  Claim C10. Appending a log with a positive amount to a book with a known id rewrites
  one position of the book list, that of the first book with the id: the books before
  and after it are unchanged, and the book itself keeps its id, name, author, type,
  total, category and cover; its logs are the old ones with the new entry, sorted.
\<close>

theorem handleAddLog_frame:
  assumes found: "find (\<lambda>b. book_id b = bookId) (books s) = Some bk"
    and pos: "0 < formAmount (book_type bk) pages hours minutes"
  shows "\<exists>pre post bk'.
           books s = pre @ bk # post
         \<and> (\<forall>x\<in>set pre. book_id x \<noteq> bookId)
         \<and> books (snd (handleAddLog c bookId d pages hours minutes s)) = pre @ bk' # post
         \<and> book_id bk' = book_id bk \<and> name bk' = name bk \<and> author bk' = author bk
         \<and> book_type bk' = book_type bk \<and> total bk' = total bk
         \<and> category bk' = category bk \<and> coverUrl bk' = coverUrl bk
         \<and> logs bk' = sortLogs (logs bk @
                [\<lparr>date = d, amount = formAmount (book_type bk) pages hours minutes\<rparr>])"
proof -
  let ?amt = "formAmount (book_type bk) pages hours minutes"
  let ?upd = "\<lambda>b. updateStatus (b\<lparr>logs := sortLogs (logs b @ [\<lparr>date = d, amount = ?amt\<rparr>])\<rparr>)"
  have bs: "books (snd (handleAddLog c bookId d pages hours minutes s))
              = update_first (\<lambda>b. book_id b = bookId) ?upd (books s)"
    using found pos by (simp add: handleAddLog_def Let_def)
  from update_first_split [OF found, of ?upd] obtain pre post where
    sp: "books s = pre @ bk # post" "\<forall>y\<in>set pre. book_id y \<noteq> bookId"
        "update_first (\<lambda>b. book_id b = bookId) ?upd (books s) = pre @ ?upd bk # post"
    by blast
  have "books s = pre @ bk # post
         \<and> (\<forall>x\<in>set pre. book_id x \<noteq> bookId)
         \<and> books (snd (handleAddLog c bookId d pages hours minutes s)) = pre @ ?upd bk # post
         \<and> book_id (?upd bk) = book_id bk \<and> name (?upd bk) = name bk \<and> author (?upd bk) = author bk
         \<and> book_type (?upd bk) = book_type bk \<and> total (?upd bk) = total bk
         \<and> category (?upd bk) = category bk \<and> coverUrl (?upd bk) = coverUrl bk
         \<and> logs (?upd bk) = sortLogs (logs bk @ [\<lparr>date = d, amount = ?amt\<rparr>])"
    using sp bs by simp
  then show ?thesis by blast
qed

text \<open>
  The hypotheses of C10 hold for 40 pages logged on the second day to the second of
  the three books on the shelf: the first and the third book are what they were.
\<close>

theorem handleAddLog_frame_witness:
  "find (\<lambda>b. book_id b = ''2'') (books shelfStore) = Some shelfEmma
   \<and> 0 < formAmount (book_type shelfEmma) 40 0 0
   \<and> books shelfStore = [shelfDune, shelfEmma, shelfUlysses]
   \<and> (\<exists>bk'. books (snd (handleAddLog (clockOn 2) ''2'' 2 40 0 0 shelfStore))
               = [shelfDune, bk', shelfUlysses]
            \<and> book_id bk' = ''2'' \<and> name bk' = utf16 ''Emma'' \<and> author bk' = utf16 ''Austen''
            \<and> book_type bk' = ''paper'' \<and> total bk' = 300
            \<and> category bk' = ''mama'' \<and> coverUrl bk' = []
            \<and> logs bk' = [\<lparr>date = 2, amount = 40\<rparr>])"
proof -
  have bs: "books shelfStore = [shelfDune, shelfEmma, shelfUlysses]"
    by (rule books_shelfStore)
  have ids: "book_id shelfDune = ''1''" "book_id shelfEmma = ''2''" "book_id shelfUlysses = ''3''"
    by (simp_all add: shelfDune_def shelfEmma_def shelfUlysses_def Book_def)
  have f: "find (\<lambda>b. book_id b = ''2'') (books shelfStore) = Some shelfEmma"
    by (simp add: bs ids)
  have a: "formAmount (book_type shelfEmma) 40 0 0 = 40"
    by (simp add: formAmount_def shelfEmma_def Book_def)
  have p: "0 < formAmount (book_type shelfEmma) 40 0 0" by (simp add: a)
  have fl: "name shelfEmma = utf16 ''Emma''" "author shelfEmma = utf16 ''Austen''"
    "book_type shelfEmma = ''paper''" "total shelfEmma = 300" "category shelfEmma = ''mama''"
    "coverUrl shelfEmma = []" "logs shelfEmma = []"
    by (simp_all add: shelfEmma_def Book_def)
  from handleAddLog_frame [OF f p, of "clockOn 2" 2]
  obtain pre post bk' where
    sp: "books shelfStore = pre @ shelfEmma # post"
    and pr: "\<forall>x\<in>set pre. book_id x \<noteq> ''2''"
    and af: "books (snd (handleAddLog (clockOn 2) ''2'' 2 40 0 0 shelfStore)) = pre @ bk' # post"
    and same: "book_id bk' = book_id shelfEmma" "name bk' = name shelfEmma"
      "author bk' = author shelfEmma" "book_type bk' = book_type shelfEmma"
      "total bk' = total shelfEmma" "category bk' = category shelfEmma"
      "coverUrl bk' = coverUrl shelfEmma"
    and lg: "logs bk' = sortLogs (logs shelfEmma @
               [\<lparr>date = 2, amount = formAmount (book_type shelfEmma) 40 0 0\<rparr>])"
    by blast
  have pre: "pre = [shelfDune] \<and> post = [shelfUlysses]"
  proof (cases pre)
    case Nil
    with sp bs ids show ?thesis by auto
  next
    case (Cons y ys)
    with sp bs have y: "y = shelfDune" and r: "[shelfEmma, shelfUlysses] = ys @ shelfEmma # post"
      by simp_all
    show ?thesis
    proof (cases ys)
      case Nil
      with r y Cons show ?thesis by simp
    next
      case (Cons z zs)
      with r have "z = shelfEmma" by simp
      with pr \<open>pre = y # ys\<close> Cons ids show ?thesis by simp
    qed
  qed
  have lg': "logs bk' = [\<lparr>date = 2, amount = 40\<rparr>]"
    by (simp add: lg fl(7) a sortLogs_def)
  have "books (snd (handleAddLog (clockOn 2) ''2'' 2 40 0 0 shelfStore))
               = [shelfDune, bk', shelfUlysses]
            \<and> book_id bk' = ''2'' \<and> name bk' = utf16 ''Emma'' \<and> author bk' = utf16 ''Austen''
            \<and> book_type bk' = ''paper'' \<and> total bk' = 300
            \<and> category bk' = ''mama'' \<and> coverUrl bk' = []
            \<and> logs bk' = [\<lparr>date = 2, amount = 40\<rparr>]"
    using af pre same lg' by (simp add: fl ids)
  then have "\<exists>bk'. books (snd (handleAddLog (clockOn 2) ''2'' 2 40 0 0 shelfStore))
               = [shelfDune, bk', shelfUlysses]
            \<and> book_id bk' = ''2'' \<and> name bk' = utf16 ''Emma'' \<and> author bk' = utf16 ''Austen''
            \<and> book_type bk' = ''paper'' \<and> total bk' = 300
            \<and> category bk' = ''mama'' \<and> coverUrl bk' = []
            \<and> logs bk' = [\<lparr>date = 2, amount = 40\<rparr>]"
    by blast
  with f p bs show ?thesis by blast
qed

section \<open>Achievements\<close>

lemma keepsUnlocked_refl: "keepsUnlocked xs xs"
  by (simp add: keepsUnlocked_def list_all2_same)

lemma keepsUnlocked_trans:
  "keepsUnlocked xs ys \<Longrightarrow> keepsUnlocked ys zs \<Longrightarrow> keepsUnlocked xs zs"
  unfolding keepsUnlocked_def
  by (auto simp: list_all2_conv_all_nth)

lemma keepsUnlocked_unlock:
  "keepsUnlocked xs (update_first P (\<lambda>a. a\<lparr>unlocked := True\<rparr>) xs)"
  unfolding keepsUnlocked_def
  by (induction xs) (simp_all add: list_all2_same)

lemma keepsUnlocked_checkOne:
  "keepsUnlocked (achievements (snd acc)) (achievements (snd (checkOne c r acc)))"
  by (simp add: checkOne_def Let_def keepsUnlocked_refl keepsUnlocked_unlock split: option.splits)

lemma keepsUnlocked_foldl_checkOne:
  "keepsUnlocked (achievements (snd acc))
     (achievements (snd (foldl (\<lambda>acc rule. checkOne c rule acc) acc rs)))"
proof (induction rs arbitrary: acc)
  case Nil
  then show ?case by (simp add: keepsUnlocked_refl)
next
  case (Cons r rs)
  show ?case
    using keepsUnlocked_trans [OF keepsUnlocked_checkOne [of acc c r] Cons.IH [of "checkOne c r acc"]]
    by simp
qed

lemma keepsUnlocked_checkAchievements:
  "keepsUnlocked (achievements s) (achievements (checkAchievements c s))"
  using keepsUnlocked_foldl_checkOne [of "(False, s)" c achievementsList]
  by (simp add: checkAchievements_def Let_def)

lemma keepsUnlocked_checkAchievements_from:
  "achievements s' = achievements s \<Longrightarrow>
   keepsUnlocked (achievements s) (achievements (checkAchievements c s'))"
  using keepsUnlocked_checkAchievements [of s' c] by simp

lemma keepsUnlocked_step:
  assumes "\<not> isImport a"
  shows "keepsUnlocked (achievements s) (achievements (step c a s))"
proof (cases a)
  case (AddBook n au t cat cover pages hours minutes)
  then show ?thesis
    by (simp add: handleAddBook_def Let_def keepsUnlocked_refl keepsUnlocked_checkAchievements_from)
next
  case (AddLog bookId d pages hours minutes)
  then show ?thesis
    by (simp add: handleAddLog_def Let_def keepsUnlocked_refl keepsUnlocked_checkAchievements_from
             split: option.splits)
next
  case (ToggleCompletion bookId)
  then show ?thesis
    by (simp add: toggleBookCompletion_def Let_def keepsUnlocked_refl
                  keepsUnlocked_checkAchievements_from split: option.splits)
next
  case (ChangeCategory bookId cat)
  then show ?thesis by (simp add: changeBookCategory_def keepsUnlocked_refl split: option.splits)
next
  case (DeleteBook bookId confirmed)
  then show ?thesis by (simp add: deleteBook_def Let_def keepsUnlocked_refl split: option.splits)
next
  case (EditBook bookId n au cat t cover pages hours minutes)
  then show ?thesis by (simp add: handleEditBook_def Let_def keepsUnlocked_refl split: option.splits)
next
  case UpdateStreaks
  then show ?thesis by (simp add: keepsUnlocked_refl)
next
  case ExportData
  then show ?thesis by (simp add: exportData_def keepsUnlocked_refl)
next
  case (ImportData parsed confirmed)
  then show ?thesis using assms by simp
qed

text \<open>
  Claim C8, amended. Over every sequence of operations with no snapshot import in it,
  the achievement table keeps its ids and every entry that was unlocked stays unlocked.
\<close>

theorem achievements_stay_unlocked_without_import:
  assumes "noImport ops"
  shows "keepsUnlocked (achievements s) (achievements (run ops s))"
  using assms
proof (induction ops arbitrary: s)
  case Nil
  then show ?case by (simp add: keepsUnlocked_refl)
next
  case (Cons ca ops)
  obtain c a where ca: "ca = (c, a)" by (cases ca)
  from Cons.prems ca have a: "\<not> isImport a" and rest: "noImport ops"
    by (simp_all add: noImport_def)
  show ?case
    using keepsUnlocked_trans [OF keepsUnlocked_step [OF a, of s c] Cons.IH [OF rest, of "step c a s"]]
    by (simp add: ca)
qed

text \<open>
  Claim C8, as stated, fails: the example store has unlocked the first achievement;
  importing a snapshot that was exported from the fresh page replaces the table, and
  the achievement is locked again.
\<close>

theorem import_locks_achievement_again:
  "map unlocked (achievements duneStore) = [True, False, False, False, False, False]
   \<and> map unlocked (achievements
        (step (clockOn 4) (ImportData (Some (fst (exportData (clockOn 0) emptyStore))) True)
           duneStore))
       = [False, False, False, False, False, False]"
  by code_simp

text \<open>
  The hypothesis of the amended C8 holds of a deletion followed by a recomputation.
\<close>

theorem achievements_stay_unlocked_without_import_witness:
  "noImport [(clockOn 3, DeleteBook ''1'' True), (clockOn 3, UpdateStreaks)]
   \<and> keepsUnlocked (achievements duneStore)
        (achievements (run [(clockOn 3, DeleteBook ''1'' True), (clockOn 3, UpdateStreaks)] duneStore))
   \<and> map unlocked (achievements duneStore) = [True, False, False, False, False, False]"
proof -
  have n: "noImport [(clockOn 3, DeleteBook ''1'' True), (clockOn 3, UpdateStreaks)]"
    by (simp add: noImport_def)
  have u: "map unlocked (achievements duneStore) = [True, False, False, False, False, False]"
    by code_simp
  show ?thesis
    using achievements_stay_unlocked_without_import [OF n, of duneStore] n u by simp
qed

section \<open>Export and import\<close>

lemma restoreBook_same:
  "category b \<noteq> [] \<Longrightarrow> status b \<noteq> [] \<Longrightarrow> restoreBook b = b"
  by (cases b) (simp add: restoreBook_def Book_def orDefault_def)

lemma map_restoreBook_same:
  "\<forall>b\<in>set bs. category b \<noteq> [] \<and> status b \<noteq> [] \<Longrightarrow> map restoreBook bs = bs"
  by (induction bs) (simp_all add: restoreBook_same)

text \<open>
  Claim C9, as stated, fails: the import records itself in the activity feed, so the
  feed of the fresh page, which is empty, has one entry after export and import.
\<close>

theorem export_import_feed_differs:
  "activityFeed emptyStore = []
   \<and> activityFeed (exportThenImport (clockOn 1) (clockOn 2) emptyStore)
       = [\<lparr>activity_type = Import, message = DataImported, bookName = [], activity_date = ''T''\<rparr>]"
  by code_simp

text \<open>
  Claim C9, amended. When every book has a non-empty category and status, exporting
  and importing the exported document at once gives back the same books (with their
  logs, status and completed flags), streaks, achievements and daily goal. The activity
  feed is the exported feed with the import's own event put in front, and its last
  entry dropped if that makes more than 50.
\<close>

theorem export_import_round_trip:
  assumes "\<forall>b\<in>set (books s). category b \<noteq> [] \<and> status b \<noteq> []"
  shows "books (exportThenImport c1 c2 s) = books s
       \<and> currentStreak (exportThenImport c1 c2 s) = currentStreak s
       \<and> longestStreak (exportThenImport c1 c2 s) = longestStreak s
       \<and> achievements (exportThenImport c1 c2 s) = achievements s
       \<and> dailyGoal (exportThenImport c1 c2 s) = dailyGoal s
       \<and> activityFeed (exportThenImport c1 c2 s)
           = (let feed = \<lparr>activity_type = Import, message = DataImported, bookName = [],
                           activity_date = iso c2\<rparr> # activityFeed s
              in if length feed > 50 then butlast feed else feed)"
proof -
  have bs: "map restoreBook (books s) = books s"
    using assms by (rule map_restoreBook_same)
  show ?thesis
    by (simp add: exportThenImport_def exportData_def importData_def Let_def bs addActivity_def)
qed

text \<open>
  The hypothesis of the amended C9 holds of the example store.
\<close>

theorem export_import_round_trip_witness:
  "list_all (\<lambda>b. category b \<noteq> [] \<and> status b \<noteq> []) (books duneStore)
   \<and> books (exportThenImport (clockOn 4) (clockOn 5) duneStore) = books duneStore
   \<and> currentStreak (exportThenImport (clockOn 4) (clockOn 5) duneStore) = 3
   \<and> longestStreak (exportThenImport (clockOn 4) (clockOn 5) duneStore) = 3
   \<and> achievements (exportThenImport (clockOn 4) (clockOn 5) duneStore) = achievements duneStore
   \<and> length (activityFeed (exportThenImport (clockOn 4) (clockOn 5) duneStore))
       = Suc (length (activityFeed duneStore))"
proof -
  have h: "\<forall>b\<in>set (books duneStore). category b \<noteq> [] \<and> status b \<noteq> []"
    by (simp add: books_duneStore duneBook_def)
  have l: "length (activityFeed duneStore) = 5" by code_simp
  show ?thesis
    using export_import_round_trip [OF h, of "clockOn 4" "clockOn 5"] h streaks_duneStore l
    by (simp add: list_all_iff Let_def)
qed

end
